theory Spec2Isabelle
  imports Complex_Main
begin

section \<open>Data model\<close>

text \<open>
  The viewer is a React application: \<open>App.tsx\<close> owns the document state and passes it
  to the \<open>PDFViewer\<close> component, which owns the canvas and the render task. Each
  \<open>useState\<close> cell is a record field, each handler a function from the state before
  the event to the state after it. JavaScript numbers that hold page numbers are
  modelled as \<open>int\<close>; the zoom scale is modelled as an exact \<open>real\<close> (the rounding of
  IEEE doubles is not represented). \<open>null\<close> and \<open>undefined\<close> are \<open>None\<close>.
\<close>

record File =
  file_name :: string
  file_type :: string
  file_bytes :: "nat list"

record PDFDocumentProxy =
  fingerprint :: nat
  numPages :: int

datatype ToolType = cursor | hand

text \<open>A JavaScript \<open>Error\<close> object, and a value that a promise may reject with.\<close>

record js_error =
  err_name :: string
  err_message :: string

datatype thrown = ErrorObj js_error | NonError

text \<open>The callbacks \<open>PDFViewer\<close> receives as props.\<close>

datatype callback =
    onLoadSuccess PDFDocumentProxy
  | onLoadError js_error
  | onPageChange int

subsection \<open>\<open>App.tsx\<close>\<close>

record App =
  currentFile :: "File option"
  pdf :: "PDFDocumentProxy option"
  currentPage :: int
  totalPages :: int
  scale :: real
  loading :: bool
  error :: "string option"
  sidebarOpen :: bool
  currentTool :: ToolType

definition initialApp :: App where
  "initialApp = \<lparr>currentFile = None, pdf = None, currentPage = 1, totalPages = 0,
     scale = 1.2, loading = False, error = None, sidebarOpen = False,
     currentTool = cursor\<rparr>"

definition isPDFFile :: "File \<Rightarrow> bool" where
  "isPDFFile f = (file_type f = ''application/pdf'')"

text \<open>\<open>handleFileChange\<close>: the argument is \<open>event.target.files?.[0]\<close>.\<close>

definition handleFileChange :: "File option \<Rightarrow> App \<Rightarrow> App" where
  "handleFileChange chosen a =
     (case chosen of
        None \<Rightarrow> a
      | Some f \<Rightarrow>
          if \<not> isPDFFile f then a\<lparr>error := Some ''Please select a valid PDF file''\<rparr>
          else a\<lparr>currentFile := Some f, error := None\<rparr>)"

text \<open>\<open>handleDrop\<close>: the argument is \<open>event.dataTransfer.files[0]\<close>.\<close>

definition handleDrop :: "File option \<Rightarrow> App \<Rightarrow> App" where
  "handleDrop dropped a =
     (case dropped of
        None \<Rightarrow> a
      | Some f \<Rightarrow>
          if \<not> isPDFFile f then a\<lparr>error := Some ''Please drop a valid PDF file''\<rparr>
          else a\<lparr>currentFile := Some f, error := None\<rparr>)"

definition handleClosePDF :: "App \<Rightarrow> App" where
  "handleClosePDF a =
     a\<lparr>currentFile := None, pdf := None, currentPage := 1, totalPages := 0,
       scale := 1.2, error := None, sidebarOpen := False\<rparr>"

text \<open>
  \<open>handleExportFile\<close> is asynchronous. Its guard reads the \<open>currentFile\<close> the callback
  captured when the button was pressed; the rest runs when \<open>arrayBuffer()\<close> settles, on
  the state of that moment. The result is the new state and the blobs handed to
  \<open>downloadBlob\<close> as (file name, bytes).
\<close>

datatype export_outcome = Downloaded | ExportThrew

definition handleExportFile ::
  "File option \<Rightarrow> export_outcome \<Rightarrow> App \<Rightarrow> App \<times> (string \<times> nat list) list" where
  "handleExportFile captured outcome a =
     (case captured of
        None \<Rightarrow> (a, [])
      | Some f \<Rightarrow>
          (case outcome of
             Downloaded \<Rightarrow> (handleClosePDF a, [(file_name f, file_bytes f)])
           | ExportThrew \<Rightarrow> (a\<lparr>error := Some ''Failed to export PDF''\<rparr>, [])))"

definition handleToolChange :: "ToolType \<Rightarrow> App \<Rightarrow> App" where
  "handleToolChange tool a = a\<lparr>currentTool := tool\<rparr>"

definition handleLoadSuccess :: "PDFDocumentProxy \<Rightarrow> App \<Rightarrow> App" where
  "handleLoadSuccess pdfDoc a =
     a\<lparr>pdf := Some pdfDoc, totalPages := numPages pdfDoc, currentPage := 1,
       loading := False\<rparr>"

definition handleLoadError :: "js_error \<Rightarrow> App \<Rightarrow> App" where
  "handleLoadError e a = a\<lparr>error := Some (err_message e), loading := False\<rparr>"

definition handlePageChange :: "int \<Rightarrow> App \<Rightarrow> App" where
  "handlePageChange page a =
     (if page \<ge> 1 \<and> page \<le> totalPages a then a\<lparr>currentPage := page\<rparr> else a)"

definition handlePrevPage :: "App \<Rightarrow> App" where
  "handlePrevPage a =
     (if currentPage a > 1 then a\<lparr>currentPage := currentPage a - 1\<rparr> else a)"

definition handleNextPage :: "App \<Rightarrow> App" where
  "handleNextPage a =
     (if currentPage a < totalPages a then a\<lparr>currentPage := currentPage a + 1\<rparr> else a)"

definition handleZoomIn :: "App \<Rightarrow> App" where
  "handleZoomIn a = a\<lparr>scale := min (scale a * 1.2) 3\<rparr>"

definition handleZoomOut :: "App \<Rightarrow> App" where
  "handleZoomOut a = a\<lparr>scale := max (scale a / 1.2) 0.5\<rparr>"

definition handleToggleSidebar :: "App \<Rightarrow> App" where
  "handleToggleSidebar a = a\<lparr>sidebarOpen := \<not> sidebarOpen a\<rparr>"

text \<open>
  The toolbar's page field: \<open>handlePageInputChange\<close> parses the text with \<open>parseInt\<close>
  (\<open>None\<close> stands for \<open>NaN\<close>) and calls \<open>onPageChange\<close>, which \<open>App\<close> binds to
  \<open>handlePageChange\<close>.
\<close>

definition handlePageInputChange :: "int option \<Rightarrow> App \<Rightarrow> App" where
  "handlePageInputChange parsed a =
     (case parsed of
        None \<Rightarrow> a
      | Some page \<Rightarrow>
          if page \<ge> 1 \<and> page \<le> totalPages a then handlePageChange page a else a)"

text \<open>
  How \<open>App\<close> binds the viewer's callbacks. \<open>deliver\<close> runs the handler of the current
  render of \<open>App\<close>. (\<open>handlePageChange\<close> is rebuilt when \<open>totalPages\<close> changes; a
  \<open>renderPage\<close> call in flight across such a change still holds the older closure. The
  statements below use \<open>deliver\<close> only where \<open>totalPages\<close> stays fixed.)
\<close>

fun deliver :: "callback \<Rightarrow> App \<Rightarrow> App" where
  "deliver (onLoadSuccess d) a = handleLoadSuccess d a"
| "deliver (onLoadError e) a = handleLoadError e a"
| "deliver (onPageChange p) a = handlePageChange p a"

fun deliverAll :: "callback list \<Rightarrow> App \<Rightarrow> App" where
  "deliverAll [] a = a"
| "deliverAll (c # cs) a = deliverAll cs (deliver c a)"

subsection \<open>\<open>PDFSidebar\<close>\<close>

record KeyboardEvent =
  key :: string
  targetIsFormField :: bool

text \<open>\<open>handleEscape\<close>; \<open>App\<close> passes \<open>onClose = () => setSidebarOpen(false)\<close>.\<close>

definition handleEscape :: "KeyboardEvent \<Rightarrow> App \<Rightarrow> App" where
  "handleEscape e a =
     (if key e = ''Escape'' \<and> sidebarOpen a then a\<lparr>sidebarOpen := False\<rparr> else a)"

subsection \<open>\<open>PDFViewer\<close>: state, props and the synchronous handlers\<close>

text \<open>
  \<open>renderTaskRef\<close> holds the render task of one \<open>renderPage\<close> call, named by the number
  of that call. \<open>canvas\<close> records the (page, scale) whose viewport last sized the canvas.
  \<open>wheelTimeout\<close> is the pending debounce timer, with the \<open>deltaY\<close> of the wheel event
  its callback captured.
\<close>

record Viewer =
  v_pdf :: "PDFDocumentProxy option"
  v_currentPage :: int
  v_loading :: bool
  v_scale :: real
  isPanning :: bool
  lastPanPoint :: "real \<times> real"
  renderTaskRef :: "nat option"
  canvas :: "(int \<times> real) option"
  wheelTimeout :: "real option"

record ViewerProps =
  fileProp :: "File option"
  externalScale :: "real option"
  externalCurrentPage :: "int option"
  toolProp :: ToolType

definition initialViewer :: Viewer where
  "initialViewer = \<lparr>v_pdf = None, v_currentPage = 1, v_loading = False, v_scale = 1.2,
     isPanning = False, lastPanPoint = (0, 0), renderTaskRef = None, canvas = None,
     wheelTimeout = None\<rparr>"

definition activeScale :: "ViewerProps \<Rightarrow> Viewer \<Rightarrow> real" where
  "activeScale props v = (case externalScale props of Some s \<Rightarrow> s | None \<Rightarrow> v_scale v)"

definition activePage :: "ViewerProps \<Rightarrow> Viewer \<Rightarrow> int" where
  "activePage props v =
     (case externalCurrentPage props of Some p \<Rightarrow> p | None \<Rightarrow> v_currentPage v)"

text \<open>The two effects that copy an external page or scale into the internal state.\<close>

definition syncExternal :: "ViewerProps \<Rightarrow> Viewer \<Rightarrow> Viewer" where
  "syncExternal props v =
     v\<lparr>v_currentPage := (case externalCurrentPage props of
                            Some p \<Rightarrow> if p \<noteq> v_currentPage v then p else v_currentPage v
                          | None \<Rightarrow> v_currentPage v),
       v_scale := (case externalScale props of
                     Some s \<Rightarrow> if s \<noteq> v_scale v then s else v_scale v
                   | None \<Rightarrow> v_scale v)\<rparr>"

text \<open>
  The effect on \<open>file\<close>: without a file the document is dropped; with one, \<open>loadPDF\<close>
  starts and runs up to its first \<open>await\<close>.
\<close>

definition fileEffect :: "File option \<Rightarrow> Viewer \<Rightarrow> Viewer" where
  "fileEffect f v = (case f of None \<Rightarrow> v\<lparr>v_pdf := None\<rparr> | Some _ \<Rightarrow> v\<lparr>v_loading := True\<rparr>)"

text \<open>
  The rest of \<open>loadPDF\<close>, once \<open>arrayBuffer()\<close> and \<open>getDocument(...).promise\<close> have
  settled: \<open>Inr\<close> the document, \<open>Inl\<close> the error the backend rejected with.
\<close>

definition loadPDF :: "js_error + PDFDocumentProxy \<Rightarrow> Viewer \<Rightarrow> Viewer \<times> callback list" where
  "loadPDF outcome v =
     (case outcome of
        Inr pdfDoc \<Rightarrow>
          (v\<lparr>v_pdf := Some pdfDoc, v_currentPage := 1, v_loading := False\<rparr>,
           [onLoadSuccess pdfDoc])
      | Inl e \<Rightarrow> (v\<lparr>v_loading := False\<rparr>, [onLoadError e]))"

text \<open>
  The arrow branches of \<open>handleKeyDown\<close> all end in the same four lines: in controlled
  mode the new page is reported through \<open>onPageChange\<close>, otherwise it is stored.
\<close>

definition turnTo :: "ViewerProps \<Rightarrow> int \<Rightarrow> Viewer \<Rightarrow> Viewer \<times> callback list" where
  "turnTo props newPage v =
     (if externalCurrentPage props \<noteq> None then (v, [onPageChange newPage])
      else (v\<lparr>v_currentPage := newPage\<rparr>, []))"

record ScrollContainer =
  scrollTop :: real
  clientHeight :: real
  scrollHeight :: real

text \<open>
  \<open>handleKeyDown\<close>. The second argument is \<open>document.querySelector('.overflow-auto')\<close>.
  The result is the new state, the callbacks invoked, and whether \<open>preventDefault\<close>
  was called.
\<close>

definition handleKeyDown ::
  "ViewerProps \<Rightarrow> ScrollContainer option \<Rightarrow> KeyboardEvent \<Rightarrow> Viewer
     \<Rightarrow> Viewer \<times> callback list \<times> bool" where
  "handleKeyDown props container event v =
     (case v_pdf v of
        None \<Rightarrow> (v, [], False)
      | Some doc \<Rightarrow>
          if targetIsFormField event then (v, [], False)
          else if key event = ''ArrowLeft'' then
            (if activePage props v > 1
             then (fst (turnTo props (activePage props v - 1) v),
                   snd (turnTo props (activePage props v - 1) v), True)
             else (v, [], True))
          else if key event = ''ArrowRight'' then
            (if activePage props v < numPages doc
             then (fst (turnTo props (activePage props v + 1) v),
                   snd (turnTo props (activePage props v + 1) v), True)
             else (v, [], True))
          else if key event = ''ArrowUp'' then
            (if activePage props v > 1 then
               (case container of
                  Some c \<Rightarrow>
                    if scrollTop c = 0
                    then (fst (turnTo props (activePage props v - 1) v),
                          snd (turnTo props (activePage props v - 1) v), True)
                    else (v, [], False)
                | None \<Rightarrow> (v, [], False))
             else (v, [], False))
          else if key event = ''ArrowDown'' then
            (if activePage props v < numPages doc then
               (case container of
                  Some c \<Rightarrow>
                    if scrollTop c + clientHeight c \<ge> scrollHeight c - 5
                    then (fst (turnTo props (activePage props v + 1) v),
                          snd (turnTo props (activePage props v + 1) v), True)
                    else (v, [], False)
                | None \<Rightarrow> (v, [], False))
             else (v, [], False))
          else if key event = ''+'' \<or> key event = ''='' then
            (v\<lparr>v_scale := min (v_scale v * 1.2) 3\<rparr>, [], True)
          else if key event = ''-'' then
            (v\<lparr>v_scale := max (v_scale v / 1.2) 0.5\<rparr>, [], True)
          else (v, [], False))"

text \<open>
  \<open>handleWheel\<close> with the control key held replaces the pending timer by one that
  captures this event; the result also says whether \<open>preventDefault\<close> was called.
  \<open>wheelTimeoutFired\<close> is the timer's callback. The listener sits on the canvas's parent
  element; the model starts where the listener is called.
\<close>

definition handleWheel :: "bool \<Rightarrow> real \<Rightarrow> Viewer \<Rightarrow> Viewer \<times> bool" where
  "handleWheel ctrlKey deltaY v =
     (if ctrlKey then (v\<lparr>wheelTimeout := Some deltaY\<rparr>, True) else (v, False))"

definition wheelTimeoutFired :: "Viewer \<Rightarrow> Viewer" where
  "wheelTimeoutFired v =
     (case wheelTimeout v of
        None \<Rightarrow> v
      | Some deltaY \<Rightarrow>
          v\<lparr>v_scale := max 0.5 (min 3 (v_scale v * (if deltaY > 0 then 0.9 else 1.1))),
            wheelTimeout := None\<rparr>)"

subsection \<open>\<open>App\<close> and \<open>PDFViewer\<close> together\<close>

record System =
  app :: App
  viewer :: Viewer

definition initialSystem :: System where
  "initialSystem = \<lparr>app = initialApp, viewer = initialViewer\<rparr>"

text \<open>The props of \<open><PDFViewer ...>\<close> in \<open>App\<close>'s JSX.\<close>

definition propsOf :: "App \<Rightarrow> ViewerProps" where
  "propsOf a = \<lparr>fileProp = currentFile a, externalScale = Some (scale a),
     externalCurrentPage = Some (currentPage a), toolProp = currentTool a\<rparr>"

text \<open>
  A \<open>keydown\<close> event on the document reaches the sidebar's listener and the viewer's;
  the viewer's callbacks run \<open>App\<close>'s handlers.
\<close>

definition keydown :: "ScrollContainer option \<Rightarrow> KeyboardEvent \<Rightarrow> System \<Rightarrow> System" where
  "keydown container event s =
     \<lparr>app = deliverAll (fst (snd (handleKeyDown (propsOf (app s)) container event (viewer s))))
              (handleEscape event (app s)),
      viewer = fst (handleKeyDown (propsOf (app s)) container event (viewer s))\<rparr>"

text \<open>
  A file is picked. An accepted file is a new \<open>File\<close> object, so the \<open>file\<close> prop
  changes and the viewer's effect on it runs; a refused file or an empty choice leaves
  the prop, and the viewer, as they were.
\<close>

definition pickFile :: "File option \<Rightarrow> System \<Rightarrow> System" where
  "pickFile chosen s =
     \<lparr>app = handleFileChange chosen (app s),
      viewer = (case chosen of
                  None \<Rightarrow> viewer s
                | Some f \<Rightarrow> if isPDFFile f then fileEffect (Some f) (viewer s) else viewer s)\<rparr>"

text \<open>The load started by the effect settles.\<close>

definition loadSettled :: "js_error + PDFDocumentProxy \<Rightarrow> System \<Rightarrow> System" where
  "loadSettled outcome s =
     \<lparr>app = deliverAll (snd (loadPDF outcome (viewer s))) (app s),
      viewer = fst (loadPDF outcome (viewer s))\<rparr>"

subsection \<open>\<open>PDFViewer\<close>: the asynchronous \<open>renderPage\<close>\<close>

text \<open>
  \<open>renderPage\<close> is an \<open>async\<close> function with two \<open>await\<close>s, so one call runs in three
  pieces: up to \<open>await pdf.getPage\<close>, from there to \<open>await renderTaskRef.current.promise\<close>,
  and the rest. Several calls can be suspended at once, and the backend decides which
  promise settles next. A call is recorded with its arguments and the \<open>await\<close> it is
  suspended at; calls are numbered in the order they were made, and the render task a
  call creates carries the call's number.
\<close>

datatype phase = AwaitGetPage | AwaitRender | Returned

record renderPage_call =
  call_page :: int
  call_scale :: real
  call_phase :: phase

text \<open>
  \<open>cancelCalled\<close> is the set of render tasks whose \<open>cancel()\<close> has been invoked;
  \<open>emitted\<close> lists the callbacks invoked so far, oldest first.
\<close>

record Rendering =
  view :: Viewer
  calls :: "nat \<Rightarrow> renderPage_call option"
  nextCall :: nat
  cancelCalled :: "nat set"
  emitted :: "callback list"

definition setPhase :: "nat \<Rightarrow> phase \<Rightarrow> Rendering \<Rightarrow> nat \<Rightarrow> renderPage_call option" where
  "setPhase i ph w =
     (calls w)(i := (case calls w i of None \<Rightarrow> None | Some c \<Rightarrow> Some (c\<lparr>call_phase := ph\<rparr>)))"

text \<open>The first piece: the loading flag, the cancellation of the stored task, \<open>getPage\<close>.\<close>

definition renderPage_start :: "int \<Rightarrow> real \<Rightarrow> Rendering \<Rightarrow> Rendering" where
  "renderPage_start pageNumber sc w =
     w\<lparr>view := (view w)\<lparr>v_loading := True, renderTaskRef := None\<rparr>,
       cancelCalled := (case renderTaskRef (view w) of
                          None \<Rightarrow> cancelCalled w
                        | Some t \<Rightarrow> insert t (cancelCalled w)),
       calls := (calls w)(nextCall w \<mapsto>
                  \<lparr>call_page = pageNumber, call_scale = sc, call_phase = AwaitGetPage\<rparr>),
       nextCall := Suc (nextCall w)\<rparr>"

text \<open>The second piece: the canvas takes the viewport's size and the render task is stored.\<close>

definition renderPage_gotPage :: "nat \<Rightarrow> renderPage_call \<Rightarrow> Rendering \<Rightarrow> Rendering" where
  "renderPage_gotPage i c w =
     w\<lparr>view := (view w)\<lparr>canvas := Some (call_page c, call_scale c),
                         renderTaskRef := Some i\<rparr>,
       calls := setPhase i AwaitRender w\<rparr>"

text \<open>The third piece, when the render promise resolves.\<close>

definition renderPage_rendered :: "nat \<Rightarrow> renderPage_call \<Rightarrow> Rendering \<Rightarrow> Rendering" where
  "renderPage_rendered i c w =
     w\<lparr>view := (view w)\<lparr>renderTaskRef := None, v_loading := False\<rparr>,
       emitted := emitted w @ [onPageChange (call_page c)],
       calls := setPhase i Returned w\<rparr>"

text \<open>The \<open>catch\<close> block, and the call's end through \<open>catch\<close> and \<open>finally\<close>.\<close>

definition catchBlock :: "thrown \<Rightarrow> callback list" where
  "catchBlock err =
     (case err of
        ErrorObj e \<Rightarrow>
          if err_name e \<noteq> ''RenderingCancelledException'' then [onLoadError e] else []
      | NonError \<Rightarrow> [])"

definition renderPage_threw :: "nat \<Rightarrow> thrown \<Rightarrow> Rendering \<Rightarrow> Rendering" where
  "renderPage_threw i err w =
     w\<lparr>view := (view w)\<lparr>v_loading := False\<rparr>,
       emitted := emitted w @ catchBlock err,
       calls := setPhase i Returned w\<rparr>"

text \<open>
  What can happen next: the effect runs \<open>renderPage(activePage)\<close> (it returns at once
  without a document; the canvas element is taken to be mounted), or a promise a
  suspended call awaits settles.
\<close>

datatype event =
    Request int real
  | GetPageResolved nat
  | GetPageRejected nat thrown
  | RenderResolved nat
  | RenderRejected nat thrown

definition suspendedAt :: "Rendering \<Rightarrow> nat \<Rightarrow> phase \<Rightarrow> bool" where
  "suspendedAt w i ph = (case calls w i of None \<Rightarrow> False | Some c \<Rightarrow> call_phase c = ph)"

fun step :: "Rendering \<Rightarrow> event \<Rightarrow> Rendering" where
  "step w (Request pageNumber sc) =
     (if v_pdf (view w) = None then w else renderPage_start pageNumber sc w)"
| "step w (GetPageResolved i) =
     (case calls w i of
        None \<Rightarrow> w
      | Some c \<Rightarrow> if call_phase c = AwaitGetPage then renderPage_gotPage i c w else w)"
| "step w (GetPageRejected i err) =
     (if suspendedAt w i AwaitGetPage then renderPage_threw i err w else w)"
| "step w (RenderResolved i) =
     (case calls w i of
        None \<Rightarrow> w
      | Some c \<Rightarrow> if call_phase c = AwaitRender then renderPage_rendered i c w else w)"
| "step w (RenderRejected i err) =
     (if suspendedAt w i AwaitRender then renderPage_threw i err w else w)"

fun run :: "Rendering \<Rightarrow> event list \<Rightarrow> Rendering" where
  "run w [] = w"
| "run w (e # es) = run (step w e) es"

text \<open>The most recent call, if any call was made.\<close>

definition latest :: "Rendering \<Rightarrow> nat option" where
  "latest w = (if nextCall w = 0 then None else Some (nextCall w - 1))"


text \<open>A viewer that has loaded a document, before the first \<open>renderPage\<close>.\<close>

definition loaded :: "PDFDocumentProxy \<Rightarrow> Rendering" where
  "loaded doc = \<lparr>view = initialViewer\<lparr>v_pdf := Some doc\<rparr>, calls = Map.empty, nextCall = 0,
     cancelCalled = {}, emitted = []\<rparr>"

subsection \<open>User intents\<close>

text \<open>
  The ways the user can ask for another page, as \<open>App\<close>'s JSX wires them: the toolbar's
  page field and arrows, an entry of the sidebar (which also closes the sidebar), and
  the keyboard.
\<close>

datatype intent =
    PageJump int
  | PrevPage
  | NextPage
  | PageInput "int option"
  | SidebarSelect int
  | KeyDown "ScrollContainer option" KeyboardEvent

fun applyIntent :: "intent \<Rightarrow> System \<Rightarrow> System" where
  "applyIntent (PageJump p) s = s\<lparr>app := handlePageChange p (app s)\<rparr>"
| "applyIntent PrevPage s = s\<lparr>app := handlePrevPage (app s)\<rparr>"
| "applyIntent NextPage s = s\<lparr>app := handleNextPage (app s)\<rparr>"
| "applyIntent (PageInput parsed) s = s\<lparr>app := handlePageInputChange parsed (app s)\<rparr>"
| "applyIntent (SidebarSelect p) s =
     s\<lparr>app := (handlePageChange p (app s))\<lparr>sidebarOpen := False\<rparr>\<rparr>"
| "applyIntent (KeyDown container event) s = keydown container event s"

subsection \<open>The states \<open>App\<close> can reach\<close>

text \<open>
  Everything that writes \<open>App\<close>'s state: the handlers passed to the toolbar, the viewer
  and the sidebar, the drop handler, and the continuation of an export (which may have
  captured any earlier file). A state is reachable when a list of these events leads
  to it from the initial state.
\<close>

datatype app_event =
    FilePicked "File option"
  | FileDropped "File option"
  | CloseClicked
  | ExportSettled "File option" export_outcome
  | ToolChosen ToolType
  | DocumentLoaded PDFDocumentProxy
  | LoadFailed js_error
  | PageReported int
  | PrevClicked
  | NextClicked
  | ZoomInClicked
  | ZoomOutClicked
  | SidebarToggled
  | SidebarClosed
  | PageTyped "int option"
  | KeyPressed KeyboardEvent

fun appStep :: "App \<Rightarrow> app_event \<Rightarrow> App" where
  "appStep a (FilePicked chosen) = handleFileChange chosen a"
| "appStep a (FileDropped dropped) = handleDrop dropped a"
| "appStep a CloseClicked = handleClosePDF a"
| "appStep a (ExportSettled captured outcome) = fst (handleExportFile captured outcome a)"
| "appStep a (ToolChosen tool) = handleToolChange tool a"
| "appStep a (DocumentLoaded pdfDoc) = handleLoadSuccess pdfDoc a"
| "appStep a (LoadFailed e) = handleLoadError e a"
| "appStep a (PageReported page) = handlePageChange page a"
| "appStep a PrevClicked = handlePrevPage a"
| "appStep a NextClicked = handleNextPage a"
| "appStep a ZoomInClicked = handleZoomIn a"
| "appStep a ZoomOutClicked = handleZoomOut a"
| "appStep a SidebarToggled = handleToggleSidebar a"
| "appStep a SidebarClosed = a\<lparr>sidebarOpen := False\<rparr>"
| "appStep a (PageTyped parsed) = handlePageInputChange parsed a"
| "appStep a (KeyPressed e) = handleEscape e a"

fun appRun :: "App \<Rightarrow> app_event list \<Rightarrow> App" where
  "appRun a [] = a"
| "appRun a (e # es) = appRun (appStep a e) es"

subsection \<open>Predicates used in the statements\<close>

text \<open>The current file, if there is one, passed \<open>isPDFFile\<close>.\<close>

definition acceptedOnly :: "App \<Rightarrow> bool" where
  "acceptedOnly a = (case currentFile a of None \<Rightarrow> True | Some g \<Rightarrow> isPDFFile g)"

text \<open>The rejection pdf.js uses for a render task that was cancelled.\<close>

definition isCancellation :: "thrown \<Rightarrow> bool" where
  "isCancellation err =
     (case err of
        ErrorObj e \<Rightarrow> err_name e = ''RenderingCancelledException''
      | NonError \<Rightarrow> False)"





subsection \<open>Example inputs\<close>

definition doc5 :: PDFDocumentProxy where
  "doc5 = \<lparr>fingerprint = 1, numPages = 5\<rparr>"

definition report_pdf :: File where
  "report_pdf = \<lparr>file_name = ''report.pdf'', file_type = ''application/pdf'',
     file_bytes = [37, 80, 68, 70, 45]\<rparr>"

text \<open>A file with a PDF's name and first bytes, and another MIME type.\<close>

definition notes_pdf :: File where
  "notes_pdf = \<lparr>file_name = ''notes.pdf'', file_type = ''text/plain'',
     file_bytes = [37, 80, 68, 70, 45]\<rparr>"

text \<open>A file with the PDF MIME type whose bytes the backend rejects.\<close>

definition broken_pdf :: File where
  "broken_pdf = \<lparr>file_name = ''broken.pdf'', file_type = ''application/pdf'',
     file_bytes = [104, 105]\<rparr>"

definition invalidPDF :: js_error where
  "invalidPDF = \<lparr>err_name = ''InvalidPDFException'',
     err_message = ''Invalid PDF structure.''\<rparr>"

definition workerCrashed :: js_error where
  "workerCrashed = \<lparr>err_name = ''UnknownErrorException'', err_message = ''worker crashed''\<rparr>"

definition cancelledError :: thrown where
  "cancelledError = ErrorObj \<lparr>err_name = ''RenderingCancelledException'',
     err_message = ''Rendering cancelled, page 1''\<rparr>"

definition arrowRight :: KeyboardEvent where
  "arrowRight = \<lparr>key = ''ArrowRight'', targetIsFormField = False\<rparr>"

text \<open>
  A session of \<open>App\<close>: a file is picked and loads, the user goes to page 3, zooms in,
  takes the hand tool and opens the sidebar, and a dropped text file leaves an error.
\<close>

definition session :: "app_event list" where
  "session = [FilePicked (Some report_pdf), DocumentLoaded doc5, PageReported 3,
     ZoomInClicked, ToolChosen hand, SidebarToggled, FileDropped (Some notes_pdf)]"

text \<open>
  The viewer used on its own, after it has loaded the five-page document, with a parent
  that supplies a scale of 0.1, or of 10.
\<close>

definition loadedViewer :: Viewer where
  "loadedViewer = fst (loadPDF (Inr doc5) (fileEffect (Some report_pdf) initialViewer))"

definition tinyScale :: ViewerProps where
  "tinyScale = \<lparr>fileProp = Some report_pdf, externalScale = Some 0.1,
     externalCurrentPage = None, toolProp = cursor\<rparr>"

definition hugeScale :: ViewerProps where
  "hugeScale = \<lparr>fileProp = Some report_pdf, externalScale = Some 10,
     externalCurrentPage = None, toolProp = cursor\<rparr>"

definition plusKey :: KeyboardEvent where
  "plusKey = \<lparr>key = ''+'', targetIsFormField = False\<rparr>"

definition minusKey :: KeyboardEvent where
  "minusKey = \<lparr>key = ''-'', targetIsFormField = False\<rparr>"

text \<open>The five-page document is open and the user has gone to page 3.\<close>

definition openApp :: App where
  "openApp = initialApp\<lparr>currentFile := Some report_pdf, pdf := Some doc5,
     currentPage := 3, totalPages := 5\<rparr>"

text \<open>The five-page document is open on its last page.\<close>

definition reading :: System where
  "reading = \<lparr>app = initialApp\<lparr>currentFile := Some report_pdf, pdf := Some doc5,
                      currentPage := 5, totalPages := 5\<rparr>,
               viewer = initialViewer\<lparr>v_pdf := Some doc5, v_currentPage := 5\<rparr>\<rparr>"

text \<open>A document is loaded, then a second file is picked whose bytes do not parse.\<close>

definition afterBrokenLoad :: System where
  "afterBrokenLoad =
     loadSettled (Inl invalidPDF) (pickFile (Some broken_pdf)
       (loadSettled (Inr doc5) (pickFile (Some report_pdf) initialSystem)))"


text \<open>Page 1 is being rendered when page 3 is requested: the task of call 0 is cancelled.\<close>

definition cancelledRun :: "event list" where
  "cancelledRun = [Request 1 1, GetPageResolved 0, Request 3 1]"


section \<open>Scale policy\<close>

lemma handleKeyDown_scale:
  "v_scale (fst (handleKeyDown props c ev v)) = v_scale v
   \<or> v_scale (fst (handleKeyDown props c ev v)) = min (v_scale v * 1.2) 3
   \<or> v_scale (fst (handleKeyDown props c ev v)) = max (v_scale v / 1.2) 0.5"
  by (simp add: handleKeyDown_def turnTo_def split: option.splits)

text \<open>
  Claim C5, as the code has it. The wheel zoom multiplies the scale by 0.9 when
  \<open>deltaY > 0\<close> and by 1.1 otherwise, and clamps the product to [0.5, 3]; the factor
  for zooming out is the constant 0.9, not the reciprocal of 1.1. Without the control
  key the wheel event sets no timer and the scale stays as it is.
\<close>

theorem wheel_zoom_scale:
  "v_scale (wheelTimeoutFired (fst (handleWheel True deltaY v)))
     = (if deltaY > 0 then max 0.5 (min 3 (v_scale v * 0.9))
        else max 0.5 (min 3 (v_scale v * 1.1)))
   \<and> 0.5 \<le> v_scale (wheelTimeoutFired (fst (handleWheel True deltaY v)))
   \<and> v_scale (wheelTimeoutFired (fst (handleWheel True deltaY v))) \<le> 3
   \<and> wheelTimeoutFired (fst (handleWheel False deltaY v)) = wheelTimeoutFired v"
  by (simp add: wheelTimeoutFired_def handleWheel_def)

theorem wheel_zoom_scale_witness:
  "v_scale (wheelTimeoutFired (fst (handleWheel True 120 initialViewer))) = 1.08
   \<and> v_scale (wheelTimeoutFired (fst (handleWheel True (- 120) initialViewer))) = 1.32
   \<and> v_scale (wheelTimeoutFired (fst (handleWheel True (- 120)
         (initialViewer\<lparr>v_scale := 3\<rparr>)))) = 3"
  using wheel_zoom_scale [of 120 initialViewer] wheel_zoom_scale [of "- 120" initialViewer]
    wheel_zoom_scale [of "- 120" "initialViewer\<lparr>v_scale := 3\<rparr>"]
  by (simp add: initialViewer_def)

text \<open>
  Claim C5 as stated fails: at scale 1 and \<open>deltaY = 1\<close> the code yields 0.9, and
  \<open>1 * (1 / 1.1)\<close>, which lies inside the bounds, is another number.
\<close>

theorem wheel_zoom_out_is_not_reciprocal:
  "v_scale (wheelTimeoutFired (fst (handleWheel True 1 (initialViewer\<lparr>v_scale := 1\<rparr>)))) = 0.9
   \<and> (0.9 :: real) \<noteq> max 0.5 (min 3 (1 * (1 / 1.1)))"
  by (simp add: wheelTimeoutFired_def handleWheel_def initialViewer_def)

lemma zoom_keys:
  assumes "v_pdf v = Some doc" and "\<not> targetIsFormField ev"
  shows "key ev = ''+'' \<or> key ev = ''='' \<Longrightarrow>
           v_scale (fst (handleKeyDown props c ev v)) = min (v_scale v * 1.2) 3"
    and "key ev = ''-'' \<Longrightarrow>
           v_scale (fst (handleKeyDown props c ev v)) = max (v_scale v / 1.2) 0.5"
  using assms by (auto simp: handleKeyDown_def)

text \<open>
  Claim C6, as the code has it. Zoom-in is \<open>min (s * 1.2) 3\<close> and zoom-out is
  \<open>max (s / 1.2) 0.5\<close>, on the toolbar and on the \<open>+\<close>, \<open>=\<close> and \<open>-\<close> keys alike. For
  every input scale zoom-in returns at most 3 and zoom-out at least 0.5. The other
  side is not clamped: zoom-in returns at least 0.5 exactly when the input is at
  least 0.5 / 1.2, and zoom-out at most 3 exactly when the input is at most 3.6. So a
  scale in [0.5, 3] stays in [0.5, 3], after a toolbar zoom and after any key.
  \<open>zoomIn(2.8) = 3\<close> and \<open>zoomOut(0.55) = 0.5\<close>.
\<close>

theorem zoom_clamps_one_side:
  "scale (handleZoomIn a) = min (scale a * 1.2) 3
   \<and> scale (handleZoomOut a) = max (scale a / 1.2) 0.5
   \<and> scale (handleZoomIn a) \<le> 3
   \<and> 0.5 \<le> scale (handleZoomOut a)
   \<and> (0.5 \<le> scale (handleZoomIn a) \<longleftrightarrow> 0.5 / 1.2 \<le> scale a)
   \<and> (scale (handleZoomOut a) \<le> 3 \<longleftrightarrow> scale a \<le> 3.6)
   \<and> (v_pdf v = Some doc \<and> \<not> targetIsFormField ev \<and> (key ev = ''+'' \<or> key ev = ''='') \<longrightarrow>
        v_scale (fst (handleKeyDown props c ev v)) = min (v_scale v * 1.2) 3)
   \<and> (v_pdf v = Some doc \<and> \<not> targetIsFormField ev \<and> key ev = ''-'' \<longrightarrow>
        v_scale (fst (handleKeyDown props c ev v)) = max (v_scale v / 1.2) 0.5)
   \<and> (0.5 \<le> v_scale v \<and> v_scale v \<le> 3 \<longrightarrow>
        0.5 \<le> v_scale (fst (handleKeyDown props c ev v))
      \<and> v_scale (fst (handleKeyDown props c ev v)) \<le> 3)
   \<and> scale (handleZoomIn (a\<lparr>scale := 2.8\<rparr>)) = 3
   \<and> scale (handleZoomOut (a\<lparr>scale := 0.55\<rparr>)) = 0.5"
proof -
  have toolbar: "scale (handleZoomIn a) = min (scale a * 1.2) 3
       \<and> scale (handleZoomOut a) = max (scale a / 1.2) 0.5"
    by (simp add: handleZoomIn_def handleZoomOut_def)
  have clamped: "scale (handleZoomIn a) \<le> 3 \<and> 0.5 \<le> scale (handleZoomOut a)"
    by (simp add: handleZoomIn_def handleZoomOut_def)
  have open_side: "(0.5 \<le> scale (handleZoomIn a) \<longleftrightarrow> 0.5 / 1.2 \<le> scale a)
       \<and> (scale (handleZoomOut a) \<le> 3 \<longleftrightarrow> scale a \<le> 3.6)"
    by (auto simp: handleZoomIn_def handleZoomOut_def min_def max_def)
  have keys: "(v_pdf v = Some doc \<and> \<not> targetIsFormField ev
          \<and> (key ev = ''+'' \<or> key ev = ''='') \<longrightarrow>
        v_scale (fst (handleKeyDown props c ev v)) = min (v_scale v * 1.2) 3)
     \<and> (v_pdf v = Some doc \<and> \<not> targetIsFormField ev \<and> key ev = ''-'' \<longrightarrow>
        v_scale (fst (handleKeyDown props c ev v)) = max (v_scale v / 1.2) 0.5)"
    using zoom_keys [of v doc ev props c] by blast
  have inside: "0.5 \<le> v_scale v \<and> v_scale v \<le> 3 \<longrightarrow>
        0.5 \<le> v_scale (fst (handleKeyDown props c ev v))
      \<and> v_scale (fst (handleKeyDown props c ev v)) \<le> 3"
    using handleKeyDown_scale [of props c ev v] by auto
  have points: "scale (handleZoomIn (a\<lparr>scale := 2.8\<rparr>)) = 3
       \<and> scale (handleZoomOut (a\<lparr>scale := 0.55\<rparr>)) = 0.5"
    by (simp add: handleZoomIn_def handleZoomOut_def)
  from toolbar clamped open_side keys inside points show ?thesis by blast
qed

theorem zoom_clamps_one_side_witness:
  "scale (handleZoomIn initialApp) = 1.44 \<and> scale (handleZoomOut initialApp) = 1
   \<and> v_pdf loadedViewer = Some doc5 \<and> \<not> targetIsFormField plusKey \<and> key plusKey = ''+''
   \<and> key minusKey = ''-''
   \<and> 0.5 \<le> v_scale loadedViewer \<and> v_scale loadedViewer \<le> 3
   \<and> v_scale (fst (handleKeyDown tinyScale None plusKey loadedViewer)) = 1.44
   \<and> v_scale (fst (handleKeyDown tinyScale None minusKey loadedViewer)) = 1
   \<and> scale (handleZoomIn (initialApp\<lparr>scale := 2.8\<rparr>)) = 3
   \<and> scale (handleZoomOut (initialApp\<lparr>scale := 0.55\<rparr>)) = 0.5"
proof -
  have v: "v_pdf loadedViewer = Some doc5" "v_scale loadedViewer = 1.2"
    by (simp_all add: loadedViewer_def loadPDF_def fileEffect_def initialViewer_def)
  have k: "\<not> targetIsFormField plusKey" "key plusKey = ''+''"
    "\<not> targetIsFormField minusKey" "key minusKey = ''-''"
    by (simp_all add: plusKey_def minusKey_def)
  have a: "scale initialApp = 1.2" by (simp add: initialApp_def)
  show ?thesis
    using v k a
      zoom_clamps_one_side [where a = initialApp and v = loadedViewer and doc = doc5
        and ev = plusKey and props = tinyScale and c = None]
      zoom_clamps_one_side [where a = initialApp and v = loadedViewer and doc = doc5
        and ev = minusKey and props = tinyScale and c = None]
    by simp
qed

text \<open>
  Claim C6 as stated fails outside the bounds. The viewer copies the scale its parent
  supplies into its own; with a supplied scale of 0.1 the \<open>+\<close> key gives 0.12, below
  0.5, and with a supplied scale of 10 the \<open>-\<close> key gives a value above 3.
\<close>

theorem zoom_key_outside_bounds:
  "v_scale (syncExternal tinyScale loadedViewer) = 0.1
   \<and> v_scale (fst (handleKeyDown tinyScale None plusKey (syncExternal tinyScale loadedViewer)))
       = 0.12
   \<and> v_scale (fst (handleKeyDown tinyScale None plusKey (syncExternal tinyScale loadedViewer)))
       < 0.5
   \<and> v_scale (syncExternal hugeScale loadedViewer) = 10
   \<and> v_scale (fst (handleKeyDown hugeScale None minusKey (syncExternal hugeScale loadedViewer)))
       > 3"
  by (simp add: handleKeyDown_def syncExternal_def loadedViewer_def loadPDF_def fileEffect_def
      initialViewer_def tinyScale_def hugeScale_def plusKey_def minusKey_def)

section \<open>Files\<close>

text \<open>
  Claim C9. In a state whose current file was itself accepted, a picked or dropped
  file becomes the current file exactly when its MIME type is \<open>application/pdf\<close>, and
  then the error is cleared; for any other file only the error message changes. The
  decision reads the MIME type alone, not the name or the bytes.
\<close>

theorem file_accepted_iff_pdf_mime_type:
  assumes "acceptedOnly a"
  shows "(currentFile (handleFileChange (Some f) a) = Some f
            \<longleftrightarrow> file_type f = ''application/pdf'')
       \<and> (currentFile (handleDrop (Some f) a) = Some f
            \<longleftrightarrow> file_type f = ''application/pdf'')
       \<and> (file_type f = ''application/pdf'' \<longrightarrow>
            handleFileChange (Some f) a = a\<lparr>currentFile := Some f, error := None\<rparr>
          \<and> handleDrop (Some f) a = a\<lparr>currentFile := Some f, error := None\<rparr>)
       \<and> (file_type f \<noteq> ''application/pdf'' \<longrightarrow>
            handleFileChange (Some f) a = a\<lparr>error := Some ''Please select a valid PDF file''\<rparr>
          \<and> handleDrop (Some f) a = a\<lparr>error := Some ''Please drop a valid PDF file''\<rparr>)
       \<and> isPDFFile (f\<lparr>file_name := n, file_bytes := b\<rparr>) = isPDFFile f"
  using assms
  by (auto simp: handleFileChange_def handleDrop_def isPDFFile_def acceptedOnly_def)

theorem file_accepted_iff_pdf_mime_type_witness:
  "acceptedOnly initialApp
   \<and> currentFile (handleFileChange (Some report_pdf) initialApp) = Some report_pdf
   \<and> currentFile (handleDrop (Some notes_pdf) initialApp) \<noteq> Some notes_pdf
   \<and> handleDrop (Some notes_pdf) initialApp
       = initialApp\<lparr>error := Some ''Please drop a valid PDF file''\<rparr>"
proof -
  have h: "acceptedOnly initialApp" by (simp add: acceptedOnly_def initialApp_def)
  show ?thesis
    using h
      file_accepted_iff_pdf_mime_type [OF h, where f = report_pdf and n = "''a''" and b = "[]"]
      file_accepted_iff_pdf_mime_type [OF h, where f = notes_pdf and n = "''a''" and b = "[]"]
    by (simp add: report_pdf_def notes_pdf_def initialApp_def)
qed

lemma appStep_loading: "\<not> loading a \<Longrightarrow> \<not> loading (appStep a e)"
  by (cases e)
     (auto simp: handleFileChange_def handleDrop_def handleClosePDF_def handleExportFile_def
        handleToolChange_def handleLoadSuccess_def handleLoadError_def handlePageChange_def
        handlePrevPage_def handleNextPage_def handleZoomIn_def handleZoomOut_def
        handleToggleSidebar_def handlePageInputChange_def handleEscape_def
        split: option.splits export_outcome.splits)

lemma appRun_loading: "\<not> loading a \<Longrightarrow> \<not> loading (appRun a es)"
  by (induction es arbitrary: a) (simp_all add: appStep_loading)

lemma reachable_not_loading: "\<not> loading (appRun initialApp es)"
  by (rule appRun_loading) (simp add: initialApp_def)

text \<open>
  Claim C10. In every state \<open>App\<close> can reach with a current file, a successful export
  hands the file to the download and closes the document: file and document handle are
  \<open>null\<close>, the page is 1, the page count 0, the scale 1.2, the error cleared and the
  sidebar closed. The result is the initial state but for the selected tool, which is
  kept. (\<open>handleClosePDF\<close> does not write the loading flag; \<open>App\<close> only ever sets it to
  \<open>false\<close>, so it is \<open>false\<close> before and after.)
\<close>

theorem export_closes_document_keeping_tool:
  assumes "currentFile (appRun initialApp es) = Some f"
  shows "handleExportFile (currentFile (appRun initialApp es)) Downloaded (appRun initialApp es) =
           (\<lparr>currentFile = None, pdf = None, currentPage = 1, totalPages = 0, scale = 1.2,
             loading = False, error = None, sidebarOpen = False,
             currentTool = currentTool (appRun initialApp es)\<rparr>,
            [(file_name f, file_bytes f)])
       \<and> fst (handleExportFile (currentFile (appRun initialApp es)) Downloaded
                (appRun initialApp es))
           = initialApp\<lparr>currentTool := currentTool (appRun initialApp es)\<rparr>"
  using assms reachable_not_loading [of es]
  by (simp add: handleExportFile_def handleClosePDF_def initialApp_def)

theorem export_closes_document_witness:
  "currentFile (appRun initialApp session) = Some report_pdf
   \<and> appRun initialApp session =
        \<lparr>currentFile = Some report_pdf, pdf = Some doc5, currentPage = 3, totalPages = 5,
          scale = 1.44, loading = False, error = Some ''Please drop a valid PDF file'',
          sidebarOpen = True, currentTool = hand\<rparr>
   \<and> handleExportFile (currentFile (appRun initialApp session)) Downloaded
        (appRun initialApp session) =
           (\<lparr>currentFile = None, pdf = None, currentPage = 1, totalPages = 0, scale = 1.2,
             loading = False, error = None, sidebarOpen = False,
             currentTool = hand\<rparr>, [(''report.pdf'', [37, 80, 68, 70, 45])])"
proof -
  have s: "appRun initialApp session =
        \<lparr>currentFile = Some report_pdf, pdf = Some doc5, currentPage = 3, totalPages = 5,
          scale = 1.44, loading = False, error = Some ''Please drop a valid PDF file'',
          sidebarOpen = True, currentTool = hand\<rparr>"
    by (simp add: session_def initialApp_def handleFileChange_def handleDrop_def isPDFFile_def
        handleLoadSuccess_def handlePageChange_def handleZoomIn_def handleToolChange_def
        handleToggleSidebar_def report_pdf_def notes_pdf_def doc5_def)
  have h: "currentFile (appRun initialApp session) = Some report_pdf"
    unfolding s by simp
  show ?thesis
    using h s export_closes_document_keeping_tool [OF h] by (simp add: report_pdf_def)
qed

text \<open>
  Claim C4, as the code has it. When loading fails, the error's message becomes the
  visible error and the loading flags are cleared; the document handle, the page count,
  the current page and the current file are left as they were. The document state is
  empty afterwards only if it was empty before.
\<close>

theorem load_error_sets_message_keeps_document:
  "app (loadSettled (Inl e) s) = (app s)\<lparr>error := Some (err_message e), loading := False\<rparr>
   \<and> viewer (loadSettled (Inl e) s) = (viewer s)\<lparr>v_loading := False\<rparr>"
  by (simp add: loadSettled_def loadPDF_def handleLoadError_def)

theorem load_error_from_empty_stays_empty:
  "error (app (loadSettled (Inl invalidPDF) initialSystem)) = Some ''Invalid PDF structure.''
   \<and> pdf (app (loadSettled (Inl invalidPDF) initialSystem)) = None
   \<and> totalPages (app (loadSettled (Inl invalidPDF) initialSystem)) = 0
   \<and> v_pdf (viewer (loadSettled (Inl invalidPDF) initialSystem)) = None"
  using load_error_sets_message_keeps_document [of invalidPDF initialSystem]
  by (simp add: initialSystem_def initialApp_def initialViewer_def invalidPDF_def)

text \<open>
  Claim C4 as stated fails when a document was open: after the failed load of a second
  file the first document's handle and its five pages are still there, next to the
  error message and the new file.
\<close>

theorem load_error_keeps_previous_document:
  "pdf (app afterBrokenLoad) = Some doc5 \<and> totalPages (app afterBrokenLoad) = 5
   \<and> v_pdf (viewer afterBrokenLoad) = Some doc5
   \<and> currentFile (app afterBrokenLoad) = Some broken_pdf
   \<and> error (app afterBrokenLoad) = Some ''Invalid PDF structure.''"
  by (simp add: afterBrokenLoad_def loadSettled_def pickFile_def loadPDF_def fileEffect_def
      handleFileChange_def isPDFFile_def handleLoadSuccess_def handleLoadError_def
      initialSystem_def initialApp_def initialViewer_def
      report_pdf_def broken_pdf_def doc5_def invalidPDF_def)

section \<open>Page navigation\<close>

lemma handleKeyDown_callbacks:
  "fst (snd (handleKeyDown props c ev v)) = []
   \<or> (\<exists>p. fst (snd (handleKeyDown props c ev v)) = [onPageChange p])"
  by (simp add: handleKeyDown_def turnTo_def split: option.splits)

lemma handlePageChange_range:
  "1 \<le> currentPage a \<Longrightarrow> currentPage a \<le> totalPages a \<Longrightarrow>
   1 \<le> currentPage (handlePageChange p a)
   \<and> currentPage (handlePageChange p a) \<le> totalPages a
   \<and> totalPages (handlePageChange p a) = totalPages a"
  by (simp add: handlePageChange_def)

lemma handleEscape_page:
  "currentPage (handleEscape ev a) = currentPage a
   \<and> totalPages (handleEscape ev a) = totalPages a"
  by (simp add: handleEscape_def)

lemma keydown_range:
  assumes "1 \<le> currentPage (app s)" and "currentPage (app s) \<le> totalPages (app s)"
  shows "1 \<le> currentPage (app (keydown c ev s))
       \<and> currentPage (app (keydown c ev s)) \<le> totalPages (app s)
       \<and> totalPages (app (keydown c ev s)) = totalPages (app s)"
proof -
  let ?a = "handleEscape ev (app s)"
  have a: "1 \<le> currentPage ?a" "currentPage ?a \<le> totalPages ?a"
    "totalPages ?a = totalPages (app s)"
    using assms by (simp_all add: handleEscape_page)
  from handleKeyDown_callbacks [of "propsOf (app s)" c ev "viewer s"]
  show ?thesis
  proof
    assume "fst (snd (handleKeyDown (propsOf (app s)) c ev (viewer s))) = []"
    then show ?thesis using a by (simp add: keydown_def)
  next
    assume "\<exists>p. fst (snd (handleKeyDown (propsOf (app s)) c ev (viewer s))) = [onPageChange p]"
    then obtain p
      where "fst (snd (handleKeyDown (propsOf (app s)) c ev (viewer s))) = [onPageChange p]" ..
    then show ?thesis
      using handlePageChange_range [OF a(1,2), of p] a(3) by (simp add: keydown_def)
  qed
qed

lemma keydown_at_ends:
  "key ev = ''ArrowLeft'' \<and> currentPage (app s) = 1 \<longrightarrow> keydown c ev s = s"
  "key ev = ''ArrowRight'' \<and> currentPage (app s) = totalPages (app s) \<longrightarrow> keydown c ev s = s"
  by (simp_all add: keydown_def handleKeyDown_def handleEscape_def turnTo_def activePage_def
      propsOf_def handlePageChange_def split: option.splits)

lemma uncontrolled_range:
  assumes "v_pdf v = Some doc" and "1 \<le> v_currentPage v" and "v_currentPage v \<le> numPages doc"
  shows "1 \<le> v_currentPage (fst (handleKeyDown props c ev v))
       \<and> v_currentPage (fst (handleKeyDown props c ev v)) \<le> numPages doc"
  using assms
  by (cases "externalCurrentPage props")
     (simp_all add: handleKeyDown_def turnTo_def activePage_def split: option.splits)

text \<open>
  Claim C7. While the current page lies in [1, totalPages], every way of asking for
  another page (a jump from the toolbar or the sidebar, the previous and next buttons,
  the page field, any key) leaves it in [1, totalPages] and leaves \<open>totalPages\<close> as it
  is. A jump to a page outside the range, the previous page of page 1 and the next page
  of the last page (by button or by arrow key) change nothing; every handler is total, there is no error result.
  The viewer's own page, used when no external page is supplied, stays within
  [1, numPages] in the same way.
\<close>

theorem page_intents_stay_in_range:
  assumes "1 \<le> currentPage (app s)" and "currentPage (app s) \<le> totalPages (app s)"
  shows "1 \<le> currentPage (app (applyIntent i s))
       \<and> currentPage (app (applyIntent i s)) \<le> totalPages (app (applyIntent i s))
       \<and> totalPages (app (applyIntent i s)) = totalPages (app s)
       \<and> (p < 1 \<or> p > totalPages (app s) \<longrightarrow>
            applyIntent (PageJump p) s = s \<and> applyIntent (PageInput (Some p)) s = s)
       \<and> (currentPage (app s) = 1 \<longrightarrow> applyIntent PrevPage s = s)
       \<and> (currentPage (app s) = totalPages (app s) \<longrightarrow> applyIntent NextPage s = s)
       \<and> (key ev = ''ArrowLeft'' \<and> currentPage (app s) = 1 \<longrightarrow>
            applyIntent (KeyDown c ev) s = s)
       \<and> (key ev = ''ArrowRight'' \<and> currentPage (app s) = totalPages (app s) \<longrightarrow>
            applyIntent (KeyDown c ev) s = s)
       \<and> (v_pdf v = Some doc \<and> 1 \<le> v_currentPage v \<and> v_currentPage v \<le> numPages doc \<longrightarrow>
            1 \<le> v_currentPage (fst (handleKeyDown props c ev v))
          \<and> v_currentPage (fst (handleKeyDown props c ev v)) \<le> numPages doc)"
proof -
  have range: "1 \<le> currentPage (app (applyIntent i s))
       \<and> currentPage (app (applyIntent i s)) \<le> totalPages (app s)
       \<and> totalPages (app (applyIntent i s)) = totalPages (app s)"
  proof (cases i)
    case (KeyDown container event)
    then show ?thesis using keydown_range [OF assms] by simp
  qed (use assms in \<open>auto simp: handlePageChange_def handlePrevPage_def handleNextPage_def
        handlePageInputChange_def split: option.splits\<close>)
  have noop: "p < 1 \<or> p > totalPages (app s) \<longrightarrow>
            applyIntent (PageJump p) s = s \<and> applyIntent (PageInput (Some p)) s = s"
    by (auto simp: handlePageChange_def handlePageInputChange_def)
  have ends: "(currentPage (app s) = 1 \<longrightarrow> applyIntent PrevPage s = s)
       \<and> (currentPage (app s) = totalPages (app s) \<longrightarrow> applyIntent NextPage s = s)"
    by (simp add: handlePrevPage_def handleNextPage_def)
  have own: "v_pdf v = Some doc \<and> 1 \<le> v_currentPage v \<and> v_currentPage v \<le> numPages doc \<longrightarrow>
            1 \<le> v_currentPage (fst (handleKeyDown props c ev v))
          \<and> v_currentPage (fst (handleKeyDown props c ev v)) \<le> numPages doc"
    using uncontrolled_range [of v doc props c ev] by blast
  have arrows: "(key ev = ''ArrowLeft'' \<and> currentPage (app s) = 1 \<longrightarrow>
            applyIntent (KeyDown c ev) s = s)
       \<and> (key ev = ''ArrowRight'' \<and> currentPage (app s) = totalPages (app s) \<longrightarrow>
            applyIntent (KeyDown c ev) s = s)"
    by (simp add: keydown_at_ends)
  from range noop ends arrows own show ?thesis by simp
qed

theorem page_intents_stay_in_range_witness:
  "1 \<le> currentPage (app reading) \<and> currentPage (app reading) \<le> totalPages (app reading)
   \<and> currentPage (app (applyIntent (KeyDown None arrowRight) reading)) = 5
   \<and> applyIntent (PageJump 6) reading = reading
   \<and> applyIntent NextPage reading = reading
   \<and> applyIntent (KeyDown None arrowRight) reading = reading
   \<and> v_pdf (viewer reading) = Some doc5
   \<and> v_currentPage (fst (handleKeyDown
        \<lparr>fileProp = Some report_pdf, externalScale = None, externalCurrentPage = None,
          toolProp = cursor\<rparr> None arrowRight (viewer reading))) \<le> 5"
proof -
  have h1: "1 \<le> currentPage (app reading)" by (simp add: reading_def initialApp_def)
  have h2: "currentPage (app reading) \<le> totalPages (app reading)"
    by (simp add: reading_def initialApp_def)
  have k: "currentPage (app (applyIntent (KeyDown None arrowRight) reading)) = 5"
    by (simp add: reading_def initialApp_def initialViewer_def keydown_def handleKeyDown_def
        activePage_def propsOf_def arrowRight_def handleEscape_def doc5_def)
  have t: "totalPages (app reading) = 5" "currentPage (app reading) = 5"
    by (simp_all add: reading_def initialApp_def)
  have v: "v_pdf (viewer reading) = Some doc5" "v_currentPage (viewer reading) = 5"
    "numPages doc5 = 5"
    by (simp_all add: reading_def initialViewer_def doc5_def)
  have r: "key arrowRight = ''ArrowRight''" by (simp add: arrowRight_def)
  show ?thesis
    using h1 h2 k t v r
      page_intents_stay_in_range [OF h1 h2, where p = 6 and i = NextPage
        and v = "viewer reading" and doc = doc5 and c = None and ev = arrowRight
        and props = "\<lparr>fileProp = Some report_pdf, externalScale = None,
          externalCurrentPage = None, toolProp = cursor\<rparr>"]
    by simp
qed

text \<open>
  Claim C8. With no document loaded, an arrow-right key event leaves the whole state of
  \<open>App\<close> and of the viewer as it is (page, scale, loading and error among it); the
  viewer's handler returns at once, calls no callback and does not prevent the default.
\<close>

theorem arrow_right_without_document:
  assumes "key event = ''ArrowRight''" and "v_pdf (viewer s) = None"
  shows "keydown container event s = s
       \<and> handleKeyDown (propsOf (app s)) container event (viewer s) = (viewer s, [], False)"
  using assms by (simp add: keydown_def handleKeyDown_def handleEscape_def)

theorem arrow_right_without_document_witness:
  "key arrowRight = ''ArrowRight'' \<and> v_pdf (viewer initialSystem) = None
   \<and> keydown None arrowRight initialSystem = initialSystem"
proof -
  have h1: "key arrowRight = ''ArrowRight''" by (simp add: arrowRight_def)
  have h2: "v_pdf (viewer initialSystem) = None"
    by (simp add: initialSystem_def initialViewer_def)
  show ?thesis using h1 h2 arrow_right_without_document [OF h1 h2, of None] by simp
qed

section \<open>Rendering\<close>

lemmas render_defs = loaded_def initialViewer_def renderPage_start_def
  renderPage_gotPage_def renderPage_threw_def renderPage_rendered_def catchBlock_def
  setPhase_def suspendedAt_def
















lemma cancelledRun_state:
  "cancelCalled (run (loaded doc5) cancelledRun) = {0}"
  "emitted (run (loaded doc5) cancelledRun) = []"
  "nextCall (run (loaded doc5) cancelledRun) = 2"
  "canvas (view (run (loaded doc5) cancelledRun)) = Some (1, 1)"
  "calls (run (loaded doc5) cancelledRun) 0
     = Some \<lparr>call_page = 1, call_scale = 1, call_phase = AwaitRender\<rparr>"
  by (simp_all add: cancelledRun_def render_defs)




text \<open>
  Claim C2, as the code has it. When the render task of a cancelled call resolves all
  the same, the call writes nothing to the canvas at that point, but it does report its
  page through \<open>onPageChange\<close>, clears \<open>renderTaskRef\<close> and clears the loading flag. The
  report is suppressed only when the cancellation takes effect, that is when the task
  rejects with \<open>RenderingCancelledException\<close>; the call then still clears the loading
  flag in its \<open>finally\<close> block.
\<close>

theorem cancelled_render_that_resolves_reports_its_page:
  assumes "i \<in> cancelCalled w" and "calls w i = Some c" and "call_phase c = AwaitRender"
  shows "emitted (step w (RenderResolved i)) = emitted w @ [onPageChange (call_page c)]
       \<and> canvas (view (step w (RenderResolved i))) = canvas (view w)
       \<and> renderTaskRef (view (step w (RenderResolved i))) = None
       \<and> v_loading (view (step w (RenderResolved i))) = False
       \<and> (isCancellation err \<longrightarrow>
            emitted (step w (RenderRejected i err)) = emitted w
          \<and> canvas (view (step w (RenderRejected i err))) = canvas (view w)
          \<and> v_loading (view (step w (RenderRejected i err))) = False)"
  using assms
  by (auto simp: renderPage_rendered_def renderPage_threw_def suspendedAt_def catchBlock_def
      isCancellation_def split: thrown.splits)

theorem cancelled_render_that_resolves_witness:
  "0 \<in> cancelCalled (run (loaded doc5) cancelledRun)
   \<and> emitted (step (run (loaded doc5) cancelledRun) (RenderResolved 0)) = [onPageChange 1]
   \<and> canvas (view (step (run (loaded doc5) cancelledRun) (RenderResolved 0))) = Some (1, 1)
   \<and> emitted (step (run (loaded doc5) cancelledRun) (RenderRejected 0 cancelledError)) = []"
proof -
  have h1: "0 \<in> cancelCalled (run (loaded doc5) cancelledRun)"
    by (simp add: cancelledRun_state)
  have h2: "calls (run (loaded doc5) cancelledRun) 0
     = Some \<lparr>call_page = 1, call_scale = 1, call_phase = AwaitRender\<rparr>"
    by (simp add: cancelledRun_state)
  have h3: "call_phase \<lparr>call_page = 1, call_scale = 1, call_phase = AwaitRender\<rparr> = AwaitRender"
    by simp
  have c: "isCancellation cancelledError"
    by (simp add: isCancellation_def cancelledError_def)
  show ?thesis
    using h1 c cancelled_render_that_resolves_reports_its_page [OF h1 h2 h3, of cancelledError]
    by (simp add: cancelledRun_state)
qed

text \<open>
  Claim C2 as stated fails: after call 0 was cancelled by the request for page 3, its
  render task resolves and \<open>onPageChange(1)\<close> is invoked.
\<close>

theorem cancelled_render_emits_page_change:
  "0 \<in> cancelCalled (run (loaded doc5) cancelledRun)
   \<and> latest (run (loaded doc5) cancelledRun) = Some 1
   \<and> emitted (run (loaded doc5) cancelledRun) = []
   \<and> emitted (step (run (loaded doc5) cancelledRun) (RenderResolved 0)) = [onPageChange 1]"
  by (simp add: cancelledRun_def render_defs latest_def)

text \<open>
  Claim C3, as the code has it. When a render task rejects, what is surfaced depends
  on the rejection alone, not on whether the call is still the latest: nothing for an
  \<open>Error\<close> named \<open>RenderingCancelledException\<close>, one \<open>onLoadError\<close> for any other
  \<open>Error\<close> object, nothing for a value that is not an \<open>Error\<close>. \<open>App\<close> shows the
  message of a surfaced error.
\<close>

theorem render_rejection_surfaced_by_error_name:
  assumes "suspendedAt w i AwaitRender"
  shows "emitted (step w (RenderRejected i err)) =
           emitted w @ (case err of
                          ErrorObj e \<Rightarrow>
                            if err_name e = ''RenderingCancelledException'' then []
                            else [onLoadError e]
                        | NonError \<Rightarrow> [])
       \<and> error (deliverAll [onLoadError e'] a) = Some (err_message e')"
  using assms
  by (simp add: renderPage_threw_def catchBlock_def handleLoadError_def split: thrown.splits)

theorem render_rejection_surfaced_witness:
  "suspendedAt (run (loaded doc5) cancelledRun) 0 AwaitRender
   \<and> emitted (step (run (loaded doc5) cancelledRun) (RenderRejected 0 cancelledError)) = []
   \<and> emitted (step (run (loaded doc5) cancelledRun) (RenderRejected 0 (ErrorObj workerCrashed)))
       = [onLoadError workerCrashed]"
proof -
  have h: "suspendedAt (run (loaded doc5) cancelledRun) 0 AwaitRender"
    by (simp add: suspendedAt_def cancelledRun_state)
  show ?thesis
    using h render_rejection_surfaced_by_error_name [OF h, of cancelledError]
      render_rejection_surfaced_by_error_name [OF h, of "ErrorObj workerCrashed"]
    by (simp add: cancelledRun_state cancelledError_def workerCrashed_def)
qed

text \<open>
  Claim C3 as stated fails: call 0 is no longer the latest when its render task
  rejects with an error other than the cancellation, and the error is surfaced and
  shown all the same.
\<close>

theorem stale_render_failure_is_surfaced:
  "latest (run (loaded doc5) cancelledRun) = Some 1
   \<and> emitted (step (run (loaded doc5) cancelledRun) (RenderRejected 0 (ErrorObj workerCrashed)))
       = [onLoadError workerCrashed]
   \<and> error (deliverAll (emitted (step (run (loaded doc5) cancelledRun)
                (RenderRejected 0 (ErrorObj workerCrashed)))) openApp) = Some ''worker crashed''"
  by (simp add: cancelledRun_def render_defs latest_def workerCrashed_def openApp_def
      handleLoadError_def)

end
